theory Spec2Isabelle
  imports Main
begin

section \<open>C strings and the string functions of libc used by the source\<close>

text \<open>
  A \<open>const char *\<close> argument is modelled by a \<open>string\<close>. As in C, the string it denotes
  ends at the first NUL character: \<open>c_str s\<close> is the text before the terminator and
  \<open>c_strlen s\<close> its length. Reading the characters of the text and the terminator itself
  is defined; reading behind the terminator is not, and yields \<open>Out_of_bounds\<close>.
\<close>

datatype fault = Out_of_bounds

definition NUL :: char where
  "NUL = CHR 0x00"

definition c_str :: "string \<Rightarrow> string" where
  "c_str s = takeWhile (\<lambda>c. c \<noteq> NUL) s"

definition c_strlen :: "string \<Rightarrow> nat" where
  "c_strlen s = length (c_str s)"

text \<open>\<open>c_read s i\<close> is the C expression \<open>*(s + i)\<close>.\<close>

definition c_read :: "string \<Rightarrow> nat \<Rightarrow> fault + char" where
  "c_read s i =
     (if i < c_strlen s then Inr (c_str s ! i)
      else if i = c_strlen s then Inr NUL
      else Inl Out_of_bounds)"

text \<open>
  \<open>c_strncmp a i b j n\<close> is \<open>strncmp(a + i, b + j, n)\<close>: at most \<open>n\<close> characters are
  compared, and the comparison stops behind a NUL that both strings share. The result is
  the difference of the first pair of characters that differ (as unsigned bytes), or 0.
\<close>

fun c_strncmp :: "string \<Rightarrow> nat \<Rightarrow> string \<Rightarrow> nat \<Rightarrow> nat \<Rightarrow> fault + int" where
  "c_strncmp a i b j 0 = Inr 0"
| "c_strncmp a i b j (Suc n) =
     (case c_read a i of
        Inl e \<Rightarrow> Inl e
      | Inr x \<Rightarrow>
          (case c_read b j of
             Inl e \<Rightarrow> Inl e
           | Inr y \<Rightarrow>
               if x \<noteq> y then Inr (int (of_char x) - int (of_char y))
               else if x = NUL then Inr 0
               else c_strncmp a (Suc i) b (Suc j) n))"

text \<open>
  \<open>c_snprintf sz parts\<close> is \<open>snprintf(buf, sz, "%s...%s", parts)\<close>: the strings are
  concatenated and at most \<open>sz - 1\<close> characters are stored in front of the terminator.
\<close>

definition c_snprintf :: "nat \<Rightarrow> string list \<Rightarrow> string" where
  "c_snprintf sz parts = take (sz - 1) (concat (map c_str parts))"

text \<open>
  The comparisons \<open>c < '0'\<close> and \<open>c > '9'\<close> on a plain \<open>char\<close>. Whether plain \<open>char\<close> is
  signed depends on the platform; the flag chooses, and the source's test does not depend
  on it (lemma \<open>not_digit_signedness\<close> below).
\<close>

definition char_val :: "bool \<Rightarrow> char \<Rightarrow> int" where
  "char_val is_signed c =
     (let v = int (of_char c) in if is_signed \<and> 128 \<le> v then v - 256 else v)"

definition not_digit :: "char \<Rightarrow> bool" where
  "not_digit c = (char_val False c < char_val False (CHR ''0'') \<or>
                  char_val False c > char_val False (CHR ''9''))"

section \<open>The operating system as the source uses it\<close>

text \<open>
  The control file is the one-byte attribute file of the platform: a read of one byte
  through a fresh descriptor delivers the first byte of its data (nothing when the data is
  empty), and a write of one byte sets that byte. The platform may also fail every
  transfer on an open control file (\<open>read\<close> then returns -1, as for \<open>EIO\<close>): the data
  of such a file is \<open>Read_error\<close>. A control file exists or not, and the process may
  write it or not; \<open>access(path, W_OK)\<close> and \<open>open\<close> succeed exactly when it exists
  and may be written. Allocation succeeds when \<open>mem_avail\<close> holds. Every call of the
  source into the file system is appended to \<open>trace\<close>.
\<close>

datatype open_flag = O_RDWR | O_WRONLY

datatype syscall =
    Access string
  | Open string open_flag
  | Read string
  | Write string char
  | Close string

datatype ctl_data = Bytes string | Read_error

record ctl_file =
  f_writable :: bool
  f_data :: ctl_data

record os_state =
  files :: "string \<rightharpoonup> ctl_file"
  mem_avail :: bool
  trace :: "syscall list"

definition log_call :: "syscall \<Rightarrow> os_state \<Rightarrow> os_state" where
  "log_call ev os = os\<lparr>trace := trace os @ [ev]\<rparr>"

definition may_write :: "os_state \<Rightarrow> string \<Rightarrow> bool" where
  "may_write os path = (case files os path of None \<Rightarrow> False | Some f \<Rightarrow> f_writable f)"

text \<open>\<open>access(path, W_OK)\<close>: 0 or -1.\<close>

definition sys_access :: "os_state \<Rightarrow> string \<Rightarrow> int \<times> os_state" where
  "sys_access os path = (if may_write os path then 0 else - 1, log_call (Access path) os)"

text \<open>
  \<open>open(path, flag)\<close>: a descriptor, or \<open>None\<close> for -1. Each operation of the source
  closes its descriptor before it returns, so a descriptor is identified with the path it
  was opened on.
\<close>

definition sys_open :: "os_state \<Rightarrow> string \<Rightarrow> open_flag \<Rightarrow> string option \<times> os_state" where
  "sys_open os path flag =
     (if may_write os path then Some path else None, log_call (Open path flag) os)"

text \<open>
  \<open>read(fd, buf, 1)\<close>: the number of bytes delivered, or -1 when the read fails, and,
  when the number is 1, the byte stored in \<open>buf\<close>.
\<close>

definition sys_read :: "os_state \<Rightarrow> string \<Rightarrow> int \<times> char option \<times> os_state" where
  "sys_read os fd =
     (case files os fd of
        None \<Rightarrow> (- 1, None, log_call (Read fd) os)
      | Some f \<Rightarrow>
          (case f_data f of
             Read_error \<Rightarrow> (- 1, None, log_call (Read fd) os)
           | Bytes [] \<Rightarrow> (0, None, log_call (Read fd) os)
           | Bytes (c # _) \<Rightarrow> (1, Some c, log_call (Read fd) os)))"

text \<open>
  \<open>write(fd, &c, 1)\<close>; the source ignores its result. The byte replaces the first byte
  of the data; a control file that fails its transfers stays as it is.
\<close>

definition store_byte :: "char \<Rightarrow> ctl_file \<Rightarrow> ctl_file" where
  "store_byte c f =
     (case f_data f of
        Bytes d \<Rightarrow> f\<lparr>f_data := Bytes (c # tl d)\<rparr>
      | Read_error \<Rightarrow> f)"

definition sys_write :: "os_state \<Rightarrow> string \<Rightarrow> char \<Rightarrow> os_state" where
  "sys_write os fd c =
     log_call (Write fd c)
       (case files os fd of
          None \<Rightarrow> os
        | Some f \<Rightarrow> os\<lparr>files := (files os)(fd \<mapsto> store_byte c f)\<rparr>)"

definition sys_close :: "os_state \<Rightarrow> string \<Rightarrow> os_state" where
  "sys_close os fd = log_call (Close fd) os"

section \<open>The Protector\<close>

text \<open>
  \<open>env_protect_t\<close> holds two function pointers; \<open>None\<close> is the null pointer and
  \<open>method\<close> names the functions a pointer of the source can point to.
  \<open>env_protect_mmcblkboot_t\<close> has \<open>env_protect_t\<close> as its first member.
\<close>

datatype "method" = Mmcblkboot_unprotect | Mmcblkboot_reprotect

record env_protect =
  unprotect :: "method option"
  reprotect :: "method option"

record env_protect_mmcblkboot = env_protect +
  sysfs_path :: string
  current_prot :: char

definition SYSFS_PATH_MAX :: nat where
  "SYSFS_PATH_MAX = 120"

definition c_sys_path_1 :: string where
  "c_sys_path_1 = ''/sys/class/block/''"

definition c_sys_path_2 :: string where
  "c_sys_path_2 = ''/force_ro''"

definition c_dev_name_1 :: string where
  "c_dev_name_1 = ''mmcblk''"

definition c_dev_name_2 :: string where
  "c_dev_name_2 = ''boot''"

text \<open>\<open>sizeof\<close> of a character array initialised by a literal counts the terminator.\<close>

definition c_sizeof :: "string \<Rightarrow> nat" where
  "c_sizeof lit = length lit + 1"

definition ENOMEM :: int where
  "ENOMEM = 12"

text \<open>The object \<open>calloc\<close> returns: every byte is zero.\<close>

definition calloc_obj :: env_protect_mmcblkboot where
  "calloc_obj = \<lparr>unprotect = None, reprotect = None, sysfs_path = [], current_prot = NUL\<rparr>"

subsection \<open>\<open>mmcblkboot_unprotect\<close> and \<open>mmcblkboot_reprotect\<close>\<close>

definition mmcblkboot_unprotect ::
  "os_state \<Rightarrow> env_protect_mmcblkboot \<Rightarrow> os_state \<times> env_protect_mmcblkboot" where
  "mmcblkboot_unprotect os p_obj =
     (let c_unprot_char = CHR ''0'';
          c_prot_char = CHR ''1'';
          (fd, os1) = sys_open os (sysfs_path p_obj) O_RDWR
      in case fd of
           None \<Rightarrow> (os1, p_obj)
         | Some fd \<Rightarrow>
             (let (n, buf, os2) = sys_read os1 fd;
                  p1 = (case buf of None \<Rightarrow> p_obj | Some b \<Rightarrow> p_obj\<lparr>current_prot := b\<rparr>)
              in if n = 1 \<and> (current_prot p1 = c_unprot_char \<or> current_prot p1 = c_prot_char)
                 then (sys_close (sys_write os2 fd c_unprot_char) fd, p1)
                 else (sys_close os2 fd, p1\<lparr>current_prot := NUL\<rparr>)))"

definition mmcblkboot_reprotect ::
  "os_state \<Rightarrow> env_protect_mmcblkboot \<Rightarrow> os_state \<times> env_protect_mmcblkboot" where
  "mmcblkboot_reprotect os p_obj =
     (if current_prot p_obj \<noteq> NUL
      then (let (fd, os1) = sys_open os (sysfs_path p_obj) O_WRONLY
            in case fd of
                 None \<Rightarrow> (os1, p_obj)
               | Some fd \<Rightarrow> (sys_close (sys_write os1 fd (current_prot p_obj)) fd, p_obj))
      else (os, p_obj))"

subsection \<open>\<open>mmcblkboot_create\<close> and \<open>env_protect_probe\<close>\<close>

text \<open>
  The result is the return value, the object stored through \<open>pp_obj\<close> (\<open>None\<close> when
  nothing is stored) and the state of the operating system; or a fault, when the routine
  reads behind the end of \<open>devname\<close>. \<open>devfile\<close> is the offset of the bare device name
  in \<open>devname\<close>.
\<close>

definition mmcblkboot_create ::
  "os_state \<Rightarrow> string \<Rightarrow> fault + (int \<times> env_protect_mmcblkboot option \<times> os_state)" where
  "mmcblkboot_create os devname =
     (case c_strncmp ''/dev/'' 0 devname 0 5 of
        Inl e \<Rightarrow> Inl e
      | Inr r0 \<Rightarrow>
     if r0 \<noteq> 0 then Inr (0, None, os) else
     (let devfile = 5 in
      case c_strncmp devname devfile c_dev_name_1 0 (c_sizeof c_dev_name_1 - 1) of
        Inl e \<Rightarrow> Inl e
      | Inr ret \<Rightarrow>
     if ret \<noteq> 0 then Inr (0, None, os) else
     (case c_strncmp devname (devfile + c_sizeof c_dev_name_1) c_dev_name_2 0
             (c_sizeof c_dev_name_2 - 1) of
        Inl e \<Rightarrow> Inl e
      | Inr r2 \<Rightarrow>
     if r2 \<noteq> 0 then Inr (0, None, os) else
     (case c_read devname (devfile + c_sizeof c_dev_name_1 - 1) of
        Inl e \<Rightarrow> Inl e
      | Inr d1 \<Rightarrow>
     if not_digit d1 then Inr (0, None, os) else
     (case c_read devname (devfile + c_sizeof c_dev_name_1 + c_sizeof c_dev_name_2 - 1) of
        Inl e \<Rightarrow> Inl e
      | Inr d2 \<Rightarrow>
     if not_digit d2 then Inr (0, None, os) else
     if \<not> mem_avail os then Inr (- ENOMEM, None, os) else
     (let p_obj = calloc_obj
            \<lparr>sysfs_path :=
               c_snprintf SYSFS_PATH_MAX [c_sys_path_1, drop devfile devname, c_sys_path_2]\<rparr>;
          (r, os1) = sys_access os (sysfs_path p_obj)
      in if r = - 1 then Inr (0, None, os1)
         else Inr (1,
                   Some (p_obj\<lparr>unprotect := Some Mmcblkboot_unprotect,
                               reprotect := Some Mmcblkboot_reprotect\<rparr>),
                   os1)))))))"

definition env_protect_probe ::
  "os_state \<Rightarrow> string \<Rightarrow> fault + (int \<times> env_protect_mmcblkboot option \<times> os_state)" where
  "env_protect_probe os devname = mmcblkboot_create os devname"

subsection \<open>Dispatch: \<open>env_unprotect\<close> and \<open>env_reprotect\<close>\<close>

text \<open>A call through a function pointer.\<close>

fun call_method ::
  "method \<Rightarrow> os_state \<Rightarrow> env_protect_mmcblkboot \<Rightarrow> os_state \<times> env_protect_mmcblkboot" where
  "call_method Mmcblkboot_unprotect os p_obj = mmcblkboot_unprotect os p_obj"
| "call_method Mmcblkboot_reprotect os p_obj = mmcblkboot_reprotect os p_obj"

definition env_unprotect ::
  "os_state \<Rightarrow> env_protect_mmcblkboot \<Rightarrow> os_state \<times> env_protect_mmcblkboot" where
  "env_unprotect os p_obj =
     (case unprotect p_obj of None \<Rightarrow> (os, p_obj) | Some f \<Rightarrow> call_method f os p_obj)"

definition env_reprotect ::
  "os_state \<Rightarrow> env_protect_mmcblkboot \<Rightarrow> os_state \<times> env_protect_mmcblkboot" where
  "env_reprotect os p_obj =
     (case reprotect p_obj of None \<Rightarrow> (os, p_obj) | Some f \<Rightarrow> call_method f os p_obj)"

section \<open>Notions used to state the properties\<close>

text \<open>
  The fixed pattern in the words of the specification: the prefix \<open>/dev/\<close>, the family
  token \<open>mmcblk\<close>, exactly one ASCII digit, the token \<open>boot\<close>, exactly one ASCII digit,
  and nothing else.
\<close>

definition ascii_digits :: string where
  "ascii_digits = ''0123456789''"

definition spec_fixed_pattern :: "string \<Rightarrow> bool" where
  "spec_fixed_pattern path =
     (length path = 17 \<and> take 5 path = ''/dev/'' \<and> take 6 (drop 5 path) = ''mmcblk'' \<and>
      path ! 11 \<in> set ascii_digits \<and> take 4 (drop 12 path) = ''boot'' \<and>
      path ! 16 \<in> set ascii_digits)"

text \<open>
  The path \<open>mmcblkboot_create\<close> builds with \<open>snprintf\<close> for a device path that has
  passed its checks, and the object it hands out for that path.
\<close>

definition control_path :: "string \<Rightarrow> string" where
  "control_path devname =
     take (SYSFS_PATH_MAX - 1) (c_sys_path_1 @ drop 5 (c_str devname) @ c_sys_path_2)"

definition new_protector :: "string \<Rightarrow> env_protect_mmcblkboot" where
  "new_protector path =
     \<lparr>unprotect = Some Mmcblkboot_unprotect, reprotect = Some Mmcblkboot_reprotect,
      sysfs_path = path, current_prot = NUL\<rparr>"

text \<open>The calls into the file system made between two states of the operating system.\<close>

definition new_calls :: "os_state \<Rightarrow> os_state \<Rightarrow> syscall list" where
  "new_calls os os' = drop (length (trace os)) (trace os')"

text \<open>
  The lifetime of a Protector: it is created by a probe that stores an object, and the
  caller then runs \<open>env_unprotect\<close> and \<open>env_reprotect\<close> on it, in any order and any
  number of times, each time in whatever state the operating system is in by then.
\<close>

inductive in_lifetime :: "env_protect_mmcblkboot \<Rightarrow> bool" where
  created: "env_protect_probe os devname = Inr (r, Some p, os') \<Longrightarrow> in_lifetime p"
| after_unprotect: "in_lifetime p \<Longrightarrow> in_lifetime (snd (env_unprotect os p))"
| after_reprotect: "in_lifetime p \<Longrightarrow> in_lifetime (snd (env_reprotect os p))"

subsection \<open>Example platforms\<close>

text \<open>
  A platform whose only control file is the one of \<open>/dev/mmcblk0boot1\<close>, writable and
  holding the given data; a platform with the control file \<open>file\<close> at \<open>path\<close>; and a
  platform without any control file, with and without memory to allocate.
\<close>

definition ctl_boot1 :: string where
  "ctl_boot1 = ''/sys/class/block/mmcblk0boot1/force_ro''"

definition os_with :: "string \<Rightarrow> ctl_file \<Rightarrow> os_state" where
  "os_with path file = \<lparr>files = [path \<mapsto> file], mem_avail = True, trace = []\<rparr>"

definition os_boot1 :: "string \<Rightarrow> os_state" where
  "os_boot1 d = os_with ctl_boot1 \<lparr>f_writable = True, f_data = Bytes d\<rparr>"

definition os_bare :: "bool \<Rightarrow> os_state" where
  "os_bare mem = \<lparr>files = Map.empty, mem_avail = mem, trace = []\<rparr>"

text \<open>The platform on which every read of that control file fails.\<close>

definition os_read_error :: os_state where
  "os_read_error = os_with ctl_boot1 \<lparr>f_writable = True, f_data = Read_error\<rparr>"

text \<open>A device path whose bare name is longer than the buffer for the control path allows.\<close>

definition long_devname :: string where
  "long_devname = ''/dev/mmcblk0boot1'' @ replicate 100 (CHR ''x'')"

definition long_ctl :: string where
  "long_ctl = ''/sys/class/block/mmcblk0boot1'' @ replicate 90 (CHR ''x'')"

section \<open>Properties of the string functions\<close>

lemma c_str_no_NUL: "NUL \<notin> set (c_str s)"
  unfolding c_str_def by (induction s) auto

lemma c_str_nth_no_NUL: "i < c_strlen s \<Longrightarrow> c_str s ! i \<noteq> NUL"
  using c_str_no_NUL [of s] by (auto simp: c_strlen_def in_set_conv_nth)

lemma c_str_drop: "i \<le> c_strlen s \<Longrightarrow> c_str (drop i s) = drop i (c_str s)"
  unfolding c_strlen_def c_str_def
proof (induction s arbitrary: i)
  case Nil
  then show ?case by simp
next
  case (Cons c s)
  then show ?case by (cases i) (auto split: if_splits)
qed

lemma c_read_inside: "i < c_strlen s \<Longrightarrow> c_read s i = Inr (c_str s ! i)"
  by (simp add: c_read_def)

lemma c_read_terminator: "c_read s (c_strlen s) = Inr NUL"
  by (simp add: c_read_def)

lemma c_read_outside: "c_strlen s < i \<Longrightarrow> c_read s i = Inl Out_of_bounds"
  by (simp add: c_read_def)

lemma c_strncmp_outside: "c_strlen a < i \<Longrightarrow> c_strncmp a i b j (Suc n) = Inl Out_of_bounds"
  by (simp add: c_read_outside)

lemma of_char_diff_eq_0: "(int (of_char x) - int (of_char (y::char)) = 0) = (x = y)"
  by auto

lemma c_strncmp_inside:
  "i \<le> c_strlen a \<Longrightarrow> j \<le> c_strlen b \<Longrightarrow>
   \<exists>r. c_strncmp a i b j n = Inr r \<and>
       (r = 0 \<longleftrightarrow> take n (drop i (c_str a)) = take n (drop j (c_str b)))"
proof (induction n arbitrary: i j)
  case 0
  then show ?case by simp
next
  case (Suc n)
  consider (both) "i < c_strlen a" "j < c_strlen b"
    | (a_ends) "i = c_strlen a" "j < c_strlen b"
    | (b_ends) "i < c_strlen a" "j = c_strlen b"
    | (ends) "i = c_strlen a" "j = c_strlen b"
    using Suc.prems by linarith
  then show ?case
  proof cases
    case both
    have da: "drop i (c_str a) = c_str a ! i # drop (Suc i) (c_str a)"
      using both by (simp add: c_strlen_def Cons_nth_drop_Suc)
    have db: "drop j (c_str b) = c_str b ! j # drop (Suc j) (c_str b)"
      using both by (simp add: c_strlen_def Cons_nth_drop_Suc)
    show ?thesis
    proof (cases "c_str a ! i = c_str b ! j")
      case True
      from Suc.IH [of "Suc i" "Suc j"] both
      obtain r where "c_strncmp a (Suc i) b (Suc j) n = Inr r"
        "r = 0 \<longleftrightarrow> take n (drop (Suc i) (c_str a)) = take n (drop (Suc j) (c_str b))"
        by auto
      with True both show ?thesis
        by (simp add: c_read_inside da db c_str_nth_no_NUL)
    next
      case False
      with both show ?thesis
        by (simp add: c_read_inside da db of_char_diff_eq_0)
    qed
  next
    case a_ends
    have db: "drop j (c_str b) = c_str b ! j # drop (Suc j) (c_str b)"
      using a_ends by (simp add: c_strlen_def Cons_nth_drop_Suc)
    have da: "drop i (c_str a) = []"
      using a_ends by (simp add: c_strlen_def)
    have ra: "c_read a i = Inr NUL"
      using a_ends by (simp add: c_read_terminator)
    have rb: "c_read b j = Inr (c_str b ! j)"
      using a_ends by (simp add: c_read_inside)
    have "c_str b ! j \<noteq> NUL" using a_ends by (simp add: c_str_nth_no_NUL)
    then have "NUL \<noteq> c_str b ! j" by (rule not_sym)
    then show ?thesis
      by (simp add: ra rb da db of_char_diff_eq_0)
  next
    case b_ends
    have da: "drop i (c_str a) = c_str a ! i # drop (Suc i) (c_str a)"
      using b_ends by (simp add: c_strlen_def Cons_nth_drop_Suc)
    have db: "drop j (c_str b) = []"
      using b_ends by (simp add: c_strlen_def)
    have ra: "c_read a i = Inr (c_str a ! i)"
      using b_ends by (simp add: c_read_inside)
    have rb: "c_read b j = Inr NUL"
      using b_ends by (simp add: c_read_terminator)
    have "c_str a ! i \<noteq> NUL" using b_ends by (simp add: c_str_nth_no_NUL)
    then show ?thesis
      by (simp add: ra rb da db of_char_diff_eq_0)
  next
    case ends
    have "c_read a i = Inr NUL" "c_read b j = Inr NUL"
      using ends by (simp_all add: c_read_terminator)
    moreover have "drop i (c_str a) = []" "drop j (c_str b) = []"
      using ends by (simp_all add: c_strlen_def)
    ultimately show ?thesis by simp
  qed
qed

section \<open>What \<open>mmcblkboot_create\<close> computes\<close>

lemma not_digit_iff: "not_digit c \<longleftrightarrow> c \<notin> set ascii_digits"
proof -
  have "c \<in> set ascii_digits \<longleftrightarrow> 48 \<le> (of_char c :: nat) \<and> (of_char c :: nat) \<le> 57"
  proof
    assume "c \<in> set ascii_digits"
    then show "48 \<le> (of_char c :: nat) \<and> (of_char c :: nat) \<le> 57"
      by (auto simp: ascii_digits_def)
  next
    assume a: "48 \<le> (of_char c :: nat) \<and> (of_char c :: nat) \<le> 57"
    define n where "n = (of_char c :: nat)"
    have c: "c = char_of n" by (simp add: n_def)
    from a have "n = 48 \<or> n = 49 \<or> n = 50 \<or> n = 51 \<or> n = 52 \<or> n = 53 \<or> n = 54 \<or>
        n = 55 \<or> n = 56 \<or> n = 57"
      unfolding n_def [symmetric] by arith
    then show "c \<in> set ascii_digits"
      unfolding c ascii_digits_def by (auto simp: char_of_eq_iff take_bit_eq_mod)
  qed
  then show ?thesis
    by (auto simp: not_digit_def char_val_def)
qed

lemma not_digit_signedness:
  "not_digit c \<longleftrightarrow>
     char_val sg c < char_val sg (CHR ''0'') \<or> char_val sg c > char_val sg (CHR ''9'')"
proof -
  have b: "(of_char c :: nat) < 304"
    using of_char_mod_256 [of c, where ?'a = nat] mod_less_divisor [of 256 "of_char c :: nat"]
    by linarith
  show ?thesis
    by (auto simp: not_digit_def char_val_def Let_def b)
qed

lemma not_digit_NUL: "not_digit NUL"
  by (simp add: not_digit_def char_val_def NUL_def)

lemma c_str_literals:
  "c_str ''/dev/'' = ''/dev/''" "c_str c_dev_name_1 = ''mmcblk''" "c_str c_dev_name_2 = ''boot''"
  "c_str c_sys_path_1 = c_sys_path_1" "c_str c_sys_path_2 = c_sys_path_2"
  by (simp_all add: c_str_def NUL_def c_dev_name_1_def c_dev_name_2_def c_sys_path_1_def
      c_sys_path_2_def)

lemma create_after_match:
  assumes "5 \<le> c_strlen d"
  shows "(if \<not> mem_avail os then Inr (- ENOMEM, None, os) else
     (let p_obj = calloc_obj
            \<lparr>sysfs_path :=
               c_snprintf SYSFS_PATH_MAX [c_sys_path_1, drop 5 d, c_sys_path_2]\<rparr>;
          (r, os1) = sys_access os (sysfs_path p_obj)
      in if r = - 1 then Inr (0, None, os1)
         else Inr (1,
                   Some (p_obj\<lparr>unprotect := Some Mmcblkboot_unprotect,
                               reprotect := Some Mmcblkboot_reprotect\<rparr>),
                   os1)))
   = (if \<not> mem_avail os then Inr (- ENOMEM, None, os)
      else if may_write os (control_path d)
           then Inr (1, Some (new_protector (control_path d)), log_call (Access (control_path d)) os)
           else Inr (0, None, log_call (Access (control_path d)) os))"
  using assms
  by (simp add: c_snprintf_def c_str_literals c_str_drop control_path_def sys_access_def
      calloc_obj_def new_protector_def)

lemma create_unfold:
  "mmcblkboot_create os d =
     (let s = c_str d in
      if take 5 s \<noteq> ''/dev/'' then Inr (0, None, os)
      else if take 6 (drop 5 s) \<noteq> ''mmcblk'' then Inr (0, None, os)
      else if length s < 12 then Inl Out_of_bounds
      else if take 4 (drop 12 s) \<noteq> ''boot'' then Inr (0, None, os)
      else if not_digit (s ! 11) then Inr (0, None, os)
      else if length s < 17 \<or> not_digit (s ! 16) then Inr (0, None, os)
      else if \<not> mem_avail os then Inr (- ENOMEM, None, os)
      else if may_write os (control_path d)
           then Inr (1, Some (new_protector (control_path d)), log_call (Access (control_path d)) os)
           else Inr (0, None, log_call (Access (control_path d)) os))"
proof -
  define s where "s = c_str d"
  have len: "c_strlen d = length s" by (simp add: s_def c_strlen_def)
  obtain r0 where r0: "c_strncmp ''/dev/'' 0 d 0 5 = Inr r0"
    "r0 = 0 \<longleftrightarrow> take 5 s = ''/dev/''"
    using c_strncmp_inside [of 0 "''/dev/''" 0 d 5]
    by (auto simp: c_str_literals s_def)
  show ?thesis
  proof (cases "take 5 s = ''/dev/''")
    case False
    with r0 show ?thesis
      by (simp add: mmcblkboot_create_def s_def [symmetric])
  next
    case dev: True
    have "length (take 5 s) = 5" by (simp add: dev)
    then have l5: "5 \<le> length s" by simp
    have sz: "c_sizeof c_dev_name_1 = 7" "c_sizeof c_dev_name_2 = 5"
      by (simp_all add: c_sizeof_def c_dev_name_1_def c_dev_name_2_def)
    obtain r1 where r1: "c_strncmp d 5 c_dev_name_1 0 6 = Inr r1"
      "r1 = 0 \<longleftrightarrow> take 6 (drop 5 s) = ''mmcblk''"
      using c_strncmp_inside [of 5 d 0 c_dev_name_1 6] l5
      by (auto simp: c_str_literals s_def c_strlen_def)
    show ?thesis
    proof (cases "take 6 (drop 5 s) = ''mmcblk''")
      case False
      with r0 r1 dev show ?thesis
        by (simp add: mmcblkboot_create_def s_def [symmetric] sz)
    next
      case mmc: True
      have "length (take 6 (drop 5 s)) = 6" by (simp add: mmc)
      then have l11: "11 \<le> length s" by simp
      show ?thesis
      proof (cases "length s < 12")
        case True
        have four: "Suc 3 = 4" by simp
        from True have "c_strncmp d 12 c_dev_name_2 0 (Suc 3) = Inl Out_of_bounds"
          by (intro c_strncmp_outside) (simp add: len)
        then have "c_strncmp d 12 c_dev_name_2 0 4 = Inl Out_of_bounds"
          unfolding four .
        with r0 r1 dev mmc True show ?thesis
          by (simp add: mmcblkboot_create_def s_def [symmetric] sz)
      next
        case l12: False
        obtain r2 where r2: "c_strncmp d 12 c_dev_name_2 0 4 = Inr r2"
          "r2 = 0 \<longleftrightarrow> take 4 (drop 12 s) = ''boot''"
          using c_strncmp_inside [of 12 d 0 c_dev_name_2 4] l12
          by (auto simp: c_str_literals s_def c_strlen_def)
        show ?thesis
        proof (cases "take 4 (drop 12 s) = ''boot''")
          case False
          with r0 r1 r2 dev mmc l12 show ?thesis
            by (simp add: mmcblkboot_create_def s_def [symmetric] sz)
        next
          case boot: True
          have "length (take 4 (drop 12 s)) = 4" by (simp add: boot)
          then have l16: "16 \<le> length s" by simp
          have d1: "c_read d 11 = Inr (s ! 11)"
            using l16 by (simp add: c_read_inside len s_def)
          have d2: "c_read d 16 = Inr (if length s < 17 then NUL else s ! 16)"
            using l16 by (auto simp: c_read_def len s_def)
          have tail: "5 \<le> c_strlen d" using l5 by (simp add: len)
          show ?thesis
            using r0 r1 r2 dev mmc l12 boot d1 d2 not_digit_NUL
            by (simp add: mmcblkboot_create_def [of os d] create_after_match [OF tail]
                s_def [symmetric] sz)
        qed
      qed
    qed
  qed
qed

text \<open>
  The pattern of the specification against the checks of the source: the source looks at
  the first 17 characters only.
\<close>

lemma spec_fixed_pattern_take:
  "spec_fixed_pattern (take 17 s) \<longleftrightarrow>
     17 \<le> length s \<and> take 5 s = ''/dev/'' \<and> take 6 (drop 5 s) = ''mmcblk'' \<and>
     \<not> not_digit (s ! 11) \<and> take 4 (drop 12 s) = ''boot'' \<and> \<not> not_digit (s ! 16)"
  by (auto simp: spec_fixed_pattern_def not_digit_iff drop_take min_def)

lemma spec_fixed_pattern_iff:
  "spec_fixed_pattern path \<longleftrightarrow>
     (\<exists>a b. a \<in> set ascii_digits \<and> b \<in> set ascii_digits \<and>
            path = ''/dev/'' @ ''mmcblk'' @ [a] @ ''boot'' @ [b])"
proof
  assume p: "spec_fixed_pattern path"
  then have len: "length path = 17" by (simp add: spec_fixed_pattern_def)
  have 1: "path = take 5 path @ drop 5 path"
    by (simp only: append_take_drop_id)
  have 2: "drop 5 path = take 6 (drop 5 path) @ drop 6 (drop 5 path)"
    by (simp only: append_take_drop_id)
  have 3: "drop 6 (drop 5 path) = path ! 11 # drop 12 path"
    using len Cons_nth_drop_Suc [of 11 path] by simp
  have 4: "drop 12 path = take 4 (drop 12 path) @ drop 4 (drop 12 path)"
    by (simp only: append_take_drop_id)
  have 5: "drop 4 (drop 12 path) = [path ! 16]"
    using len Cons_nth_drop_Suc [of 16 path] by simp
  have "path = take 5 path @ take 6 (drop 5 path) @ [path ! 11] @ take 4 (drop 12 path) @ [path ! 16]"
    using 1 2 3 4 5 by (metis append_Cons append_Nil)
  with p show "\<exists>a b. a \<in> set ascii_digits \<and> b \<in> set ascii_digits \<and>
            path = ''/dev/'' @ ''mmcblk'' @ [a] @ ''boot'' @ [b]"
    unfolding spec_fixed_pattern_def by metis
next
  assume "\<exists>a b. a \<in> set ascii_digits \<and> b \<in> set ascii_digits \<and>
            path = ''/dev/'' @ ''mmcblk'' @ [a] @ ''boot'' @ [b]"
  then show "spec_fixed_pattern path"
    by (auto simp: spec_fixed_pattern_def)
qed

lemma short_mmcblk:
  "take 5 s = ''/dev/'' \<and> take 6 (drop 5 s) = ''mmcblk'' \<and> length s < 12 \<longleftrightarrow> s = ''/dev/mmcblk''"
proof
  assume a: "take 5 s = ''/dev/'' \<and> take 6 (drop 5 s) = ''mmcblk'' \<and> length s < 12"
  then have t: "take 6 (drop 5 s) = ''mmcblk''" by simp
  have "length (take 6 (drop 5 s)) = 6" unfolding t by simp
  then have "6 \<le> length s - 5" by simp
  moreover from a have "length s < 12" by simp
  ultimately have "length (drop 5 s) = 6" by simp
  then have "take 6 (drop 5 s) = drop 5 s" by simp
  with a have "take 5 s @ drop 5 s = ''/dev/'' @ ''mmcblk''" by simp
  then show "s = ''/dev/mmcblk''" by simp
next
  assume "s = ''/dev/mmcblk''"
  then show "take 5 s = ''/dev/'' \<and> take 6 (drop 5 s) = ''mmcblk'' \<and> length s < 12" by simp
qed

lemma create_fault_iff:
  "(\<exists>e. mmcblkboot_create os d = Inl e) \<longleftrightarrow> c_str d = ''/dev/mmcblk''"
  using short_mmcblk [of "c_str d"]
  by (auto simp: create_unfold Let_def split: if_splits)

lemma create_no_match:
  assumes "\<not> spec_fixed_pattern (take 17 (c_str d))" and "c_str d \<noteq> ''/dev/mmcblk''"
  shows "mmcblkboot_create os d = Inr (0, None, os)"
  using assms short_mmcblk [of "c_str d"]
  by (auto simp: create_unfold Let_def spec_fixed_pattern_take)

lemma create_match:
  assumes "spec_fixed_pattern (take 17 (c_str d))"
  shows "mmcblkboot_create os d =
     (if \<not> mem_avail os then Inr (- ENOMEM, None, os)
      else if may_write os (control_path d)
           then Inr (1, Some (new_protector (control_path d)), log_call (Access (control_path d)) os)
           else Inr (0, None, log_call (Access (control_path d)) os))"
  using assms
  by (auto simp: create_unfold Let_def spec_fixed_pattern_take)

lemma create_stores:
  assumes "mmcblkboot_create os d = Inr (r, Some p, os')"
  shows "spec_fixed_pattern (take 17 (c_str d)) \<and> mem_avail os \<and> may_write os (control_path d) \<and>
         r = 1 \<and> p = new_protector (control_path d) \<and> os' = log_call (Access (control_path d)) os"
proof (cases "spec_fixed_pattern (take 17 (c_str d))")
  case True
  with assms show ?thesis
    by (auto simp: create_match split: if_splits)
next
  case False
  with assms create_no_match [of d os] create_fault_iff [of os d] show ?thesis
    by (cases "c_str d = ''/dev/mmcblk''") auto
qed

section \<open>What \<open>mmcblkboot_unprotect\<close> and \<open>mmcblkboot_reprotect\<close> compute\<close>

lemma unprotect_open_fails:
  assumes "\<not> may_write os (sysfs_path p)"
  shows "mmcblkboot_unprotect os p = (log_call (Open (sysfs_path p) O_RDWR) os, p)"
  using assms by (simp add: mmcblkboot_unprotect_def sys_open_def)

lemma unprotect_short_read:
  assumes "files os (sysfs_path p) = Some f" and "f_writable f" and "f_data f = Bytes []"
  shows "mmcblkboot_unprotect os p =
           (os\<lparr>trace := trace os @
               [Open (sysfs_path p) O_RDWR, Read (sysfs_path p), Close (sysfs_path p)]\<rparr>,
            p\<lparr>current_prot := NUL\<rparr>)"
  using assms
  by (simp add: mmcblkboot_unprotect_def sys_open_def sys_read_def sys_close_def may_write_def
      log_call_def)

lemma unprotect_read_fails:
  assumes "files os (sysfs_path p) = Some f" and "f_writable f" and "f_data f = Read_error"
  shows "mmcblkboot_unprotect os p =
           (os\<lparr>trace := trace os @
               [Open (sysfs_path p) O_RDWR, Read (sysfs_path p), Close (sysfs_path p)]\<rparr>,
            p\<lparr>current_prot := NUL\<rparr>)"
  using assms
  by (simp add: mmcblkboot_unprotect_def sys_open_def sys_read_def sys_close_def may_write_def
      log_call_def)

lemma unprotect_unrecognised:
  assumes "files os (sysfs_path p) = Some f" and "f_writable f" and "f_data f = Bytes (c # rest)"
    and "c \<noteq> CHR ''0''" and "c \<noteq> CHR ''1''"
  shows "mmcblkboot_unprotect os p =
           (os\<lparr>trace := trace os @
               [Open (sysfs_path p) O_RDWR, Read (sysfs_path p), Close (sysfs_path p)]\<rparr>,
            p\<lparr>current_prot := NUL\<rparr>)"
  using assms
  by (simp add: mmcblkboot_unprotect_def sys_open_def sys_read_def sys_close_def may_write_def
      log_call_def)

lemma unprotect_recognised:
  assumes "files os (sysfs_path p) = Some f" and "f_writable f" and "f_data f = Bytes (c # rest)"
    and "c = CHR ''0'' \<or> c = CHR ''1''"
  shows "mmcblkboot_unprotect os p =
           (os\<lparr>files := (files os)(sysfs_path p \<mapsto> f\<lparr>f_data := Bytes (CHR ''0'' # rest)\<rparr>),
               trace := trace os @
               [Open (sysfs_path p) O_RDWR, Read (sysfs_path p),
                Write (sysfs_path p) (CHR ''0''), Close (sysfs_path p)]\<rparr>,
            p\<lparr>current_prot := c\<rparr>)"
  using assms
  by (auto simp: mmcblkboot_unprotect_def sys_open_def sys_read_def sys_write_def store_byte_def
      sys_close_def may_write_def log_call_def Let_def)

lemma unprotect_cases:
  "snd (mmcblkboot_unprotect os p) = p \<or>
   snd (mmcblkboot_unprotect os p) = p\<lparr>current_prot := NUL\<rparr> \<or>
   snd (mmcblkboot_unprotect os p) = p\<lparr>current_prot := CHR ''0''\<rparr> \<or>
   snd (mmcblkboot_unprotect os p) = p\<lparr>current_prot := CHR ''1''\<rparr>"
proof (cases "may_write os (sysfs_path p)")
  case False
  then show ?thesis by (simp add: unprotect_open_fails)
next
  case True
  then obtain f where f: "files os (sysfs_path p) = Some f" "f_writable f"
    by (auto simp: may_write_def split: option.splits)
  show ?thesis
  proof (cases "f_data f")
    case Read_error
    with f show ?thesis by (simp add: unprotect_read_fails)
  next
    case (Bytes d)
    show ?thesis
    proof (cases d)
      case Nil
      with f Bytes show ?thesis by (simp add: unprotect_short_read)
    next
      case (Cons c rest)
      show ?thesis
      proof (cases "c = CHR ''0'' \<or> c = CHR ''1''")
        case True
        with f Bytes Cons unprotect_recognised [of os p f c rest] show ?thesis by auto
      next
        case False
        with f Bytes Cons unprotect_unrecognised [of os p f c rest] show ?thesis by auto
      qed
    qed
  qed
qed

lemma reprotect_nothing_archived:
  assumes "current_prot p = NUL"
  shows "mmcblkboot_reprotect os p = (os, p)"
  using assms by (simp add: mmcblkboot_reprotect_def)

lemma reprotect_open_fails:
  assumes "current_prot p \<noteq> NUL" and "\<not> may_write os (sysfs_path p)"
  shows "mmcblkboot_reprotect os p = (log_call (Open (sysfs_path p) O_WRONLY) os, p)"
  using assms by (simp add: mmcblkboot_reprotect_def sys_open_def)

lemma reprotect_writes:
  assumes "current_prot p \<noteq> NUL" and "files os (sysfs_path p) = Some f" and "f_writable f"
  shows "mmcblkboot_reprotect os p =
           (os\<lparr>files := (files os)(sysfs_path p \<mapsto> store_byte (current_prot p) f),
               trace := trace os @
               [Open (sysfs_path p) O_WRONLY, Write (sysfs_path p) (current_prot p),
                Close (sysfs_path p)]\<rparr>,
            p)"
  using assms
  by (simp add: mmcblkboot_reprotect_def sys_open_def sys_write_def sys_close_def may_write_def
      log_call_def)

lemma reprotect_keeps_object: "snd (mmcblkboot_reprotect os p) = p"
  by (simp add: mmcblkboot_reprotect_def sys_open_def split: prod.splits option.splits)

lemma new_calls_append: "new_calls os (os'\<lparr>trace := trace os @ evs\<rparr>) = evs"
  by (simp add: new_calls_def)

lemma new_calls_log: "new_calls os (log_call ev os) = [ev]"
  by (simp add: new_calls_def log_call_def)

lemma new_calls_same: "new_calls os os = []"
  by (simp add: new_calls_def)

section \<open>The lifetime of a Protector\<close>

lemma lifetime_methods:
  assumes "in_lifetime p"
  shows "unprotect p = Some Mmcblkboot_unprotect \<and> reprotect p = Some Mmcblkboot_reprotect"
  using assms
proof (induction rule: in_lifetime.induct)
  case (created os devname r p os')
  then show ?case
    using create_stores [of os devname r p os']
    by (simp add: env_protect_probe_def new_protector_def)
next
  case (after_unprotect p os)
  then have "env_unprotect os p = mmcblkboot_unprotect os p"
    by (simp add: env_unprotect_def)
  with after_unprotect.IH unprotect_cases [of os p] show ?case by auto
next
  case (after_reprotect p os)
  then have "env_reprotect os p = mmcblkboot_reprotect os p"
    by (simp add: env_reprotect_def)
  with after_reprotect.IH show ?case by (simp add: reprotect_keeps_object)
qed

lemma lifetime_unprotect:
  "in_lifetime p \<Longrightarrow> env_unprotect os p = mmcblkboot_unprotect os p"
  using lifetime_methods [of p] by (simp add: env_unprotect_def)

lemma lifetime_reprotect:
  "in_lifetime p \<Longrightarrow> env_reprotect os p = mmcblkboot_reprotect os p"
  using lifetime_methods [of p] by (simp add: env_reprotect_def)

lemma probed_fresh:
  assumes "env_protect_probe os devname = Inr (r, Some p, os')"
  shows "in_lifetime p" and "current_prot p = NUL"
proof -
  show "in_lifetime p" using assms by (rule in_lifetime.created)
  show "current_prot p = NUL"
    using create_stores [of os devname r p os'] assms
    by (simp add: env_protect_probe_def new_protector_def)
qed

lemma lifetime_archived:
  assumes "in_lifetime p"
  shows "current_prot p \<in> {NUL, CHR ''0'', CHR ''1''}"
  using assms
proof (induction rule: in_lifetime.induct)
  case (created os devname r p os')
  then show ?case by (simp add: probed_fresh(2))
next
  case (after_unprotect p os)
  with unprotect_cases [of os p] show ?case
    by (auto simp: lifetime_unprotect)
next
  case (after_reprotect p os)
  then show ?case
    by (simp add: lifetime_reprotect reprotect_keeps_object)
qed

section \<open>The example platforms\<close>

lemmas probe_eval =
  env_protect_probe_def create_unfold Let_def c_str_def NUL_def control_path_def
  SYSFS_PATH_MAX_def c_sys_path_1_def c_sys_path_2_def may_write_def not_digit_def char_val_def
  os_with_def os_boot1_def os_bare_def ctl_boot1_def new_protector_def log_call_def ENOMEM_def
  spec_fixed_pattern_def ascii_digits_def

lemmas run_eval =
  env_unprotect_def env_reprotect_def mmcblkboot_unprotect_def mmcblkboot_reprotect_def
  sys_open_def sys_read_def sys_write_def store_byte_def sys_close_def may_write_def
  log_call_def new_protector_def os_with_def os_boot1_def os_bare_def ctl_boot1_def NUL_def
  new_calls_def Let_def

lemma spec_fixed_pattern_c_str:
  assumes "spec_fixed_pattern d"
  shows "c_str d = d" and "take 17 d = d"
proof -
  from assms obtain a b where ab: "a \<in> set ascii_digits" "b \<in> set ascii_digits"
    and d: "d = ''/dev/'' @ ''mmcblk'' @ [a] @ ''boot'' @ [b]"
    unfolding spec_fixed_pattern_iff by blast
  from ab have "a \<noteq> NUL" "b \<noteq> NUL"
    by (auto simp: ascii_digits_def NUL_def)
  then show "c_str d = d"
    by (simp add: d c_str_def NUL_def)
  show "take 17 d = d"
    by (simp add: d)
qed

lemma probe_boot1:
  "env_protect_probe (os_boot1 d) ''/dev/mmcblk0boot1'' =
     Inr (1, Some (new_protector ctl_boot1), log_call (Access ctl_boot1) (os_boot1 d))"
  by (simp add: probe_eval)

lemma lifetime_boot1: "in_lifetime (new_protector ctl_boot1)"
  using probe_boot1 [of "''1''"] by (rule in_lifetime.created)

lemma lifetime_boot1_archived: "in_lifetime ((new_protector ctl_boot1)\<lparr>current_prot := CHR ''1''\<rparr>)"
proof -
  have "snd (env_unprotect (os_boot1 ''1'') (new_protector ctl_boot1)) =
          (new_protector ctl_boot1)\<lparr>current_prot := CHR ''1''\<rparr>"
    by (simp add: run_eval)
  with in_lifetime.after_unprotect [OF lifetime_boot1, of "os_boot1 ''1''"] show ?thesis
    by simp
qed

lemma long_devname_c_str: "c_str long_devname = long_devname"
  by (simp add: long_devname_def c_str_def NUL_def)

lemma long_devname_pattern: "spec_fixed_pattern (take 17 (c_str long_devname))"
  unfolding long_devname_c_str
  by (simp add: long_devname_def spec_fixed_pattern_def ascii_digits_def)

lemma long_devname_control_path: "control_path long_devname = long_ctl"
  unfolding control_path_def long_devname_c_str
  by (simp add: long_devname_def long_ctl_def SYSFS_PATH_MAX_def c_sys_path_1_def c_sys_path_2_def)

section \<open>The claims\<close>

subsection \<open>C1: device paths outside the fixed pattern\<close>

text \<open>
  Claim C1, as amended. For every device path whose first 17 characters are not
  \<open>/dev/\<close>, \<open>mmcblk\<close>, one ASCII digit, \<open>boot\<close>, one ASCII digit (a path that is too
  short, a wrong prefix, a wrong family or partition-class token, a non-digit at either
  digit position, a second digit behind the controller index), \<open>env_protect_probe\<close>
  returns 0, stores no Protector and makes no call into the file system. What follows the
  17th character is not examined. The path \<open>/dev/mmcblk\<close> itself is left out: see C10.
\<close>

theorem C1_probe_rejects_outside_pattern:
  assumes "\<not> spec_fixed_pattern (take 17 (c_str devname))"
    and "c_str devname \<noteq> ''/dev/mmcblk''"
  shows "env_protect_probe os devname = Inr (0, None, os)"
  using assms by (simp add: env_protect_probe_def create_no_match)

text \<open>The hypotheses of C1 hold for \<open>/dev/mmcblk10boot1\<close>, with two digits as controller index.\<close>

theorem C1_probe_rejects_outside_pattern_witness:
  "\<not> spec_fixed_pattern (take 17 (c_str ''/dev/mmcblk10boot1'')) \<and>
   c_str ''/dev/mmcblk10boot1'' \<noteq> ''/dev/mmcblk'' \<and>
   env_protect_probe (os_boot1 ''1'') ''/dev/mmcblk10boot1'' = Inr (0, None, os_boot1 ''1'')"
  using C1_probe_rejects_outside_pattern [of "''/dev/mmcblk10boot1''" "os_boot1 ''1''"]
  by (simp add: c_str_def NUL_def spec_fixed_pattern_def)

text \<open>
  Claim C1 as it was stated fails: \<open>/dev/mmcblk0boot12\<close> has two digits at the partition
  index and is not of the fixed pattern, yet the probe returns 1 and a Protector when the
  control file \<open>/sys/class/block/mmcblk0boot12/force_ro\<close> is writable.
\<close>

theorem C1_trailing_characters_accepted:
  "\<not> spec_fixed_pattern ''/dev/mmcblk0boot12'' \<and>
   env_protect_probe
     (os_with ''/sys/class/block/mmcblk0boot12/force_ro'' \<lparr>f_writable = True, f_data = Bytes ''1''\<rparr>)
     ''/dev/mmcblk0boot12'' =
   Inr (1, Some (new_protector ''/sys/class/block/mmcblk0boot12/force_ro''),
        log_call (Access ''/sys/class/block/mmcblk0boot12/force_ro'')
          (os_with ''/sys/class/block/mmcblk0boot12/force_ro''
             \<lparr>f_writable = True, f_data = Bytes ''1''\<rparr>))"
  by (simp add: probe_eval)

subsection \<open>C2: the round trip of unprotect and reprotect\<close>

text \<open>
  Claim C2. Let \<open>p\<close> be the Protector of a device path the probe has accepted, and let its
  control file be writable and hold the byte \<open>'1'\<close>. Then \<open>env_unprotect\<close> opens the
  file, reads it, writes \<open>'0'\<close> (the file then holds \<open>'0'\<close>) and archives \<open>'1'\<close> in
  \<open>current_prot\<close>; the \<open>env_reprotect\<close> that follows opens the file and writes the
  archived \<open>'1'\<close>, after which the files are what they were at the start.
\<close>

theorem C2_unprotect_reprotect_round_trip:
  assumes "env_protect_probe os0 devname = Inr (r, Some p, os0')"
    and "files os (sysfs_path p) = Some f" and "f_writable f"
    and "f_data f = Bytes (CHR ''1'' # rest)"
  shows "(let (os1, p1) = env_unprotect os p; (os2, p2) = env_reprotect os1 p1 in
          files os1 = (files os)(sysfs_path p \<mapsto> f\<lparr>f_data := Bytes (CHR ''0'' # rest)\<rparr>) \<and>
          new_calls os os1 =
            [Open (sysfs_path p) O_RDWR, Read (sysfs_path p),
             Write (sysfs_path p) (CHR ''0''), Close (sysfs_path p)] \<and>
          p1 = p\<lparr>current_prot := CHR ''1''\<rparr> \<and>
          new_calls os1 os2 =
            [Open (sysfs_path p) O_WRONLY, Write (sysfs_path p) (CHR ''1''),
             Close (sysfs_path p)] \<and>
          files os2 = files os \<and> p2 = p1)"
proof -
  let ?path = "sysfs_path p"
  let ?p1 = "p\<lparr>current_prot := CHR ''1''\<rparr>"
  let ?f1 = "f\<lparr>f_data := Bytes (CHR ''0'' # rest)\<rparr>"
  let ?os1 = "os\<lparr>files := (files os)(?path \<mapsto> ?f1),
               trace := trace os @ [Open ?path O_RDWR, Read ?path, Write ?path (CHR ''0''),
                                    Close ?path]\<rparr>"
  let ?f2 = "f\<lparr>f_data := Bytes (CHR ''1'' # rest)\<rparr>"
  let ?os2 = "os\<lparr>files := (files os)(?path \<mapsto> ?f2),
               trace := trace os @ [Open ?path O_RDWR, Read ?path, Write ?path (CHR ''0''),
                                    Close ?path, Open ?path O_WRONLY,
                                    Write ?path (CHR ''1''), Close ?path]\<rparr>"
  have live: "in_lifetime p" using assms(1) by (rule probed_fresh)
  have u: "env_unprotect os p = (?os1, ?p1)"
    using unprotect_recognised [OF assms(2,3,4)] by (simp add: lifetime_unprotect [OF live])
  have live1: "in_lifetime ?p1"
    using in_lifetime.after_unprotect [OF live, of os] u by simp
  have "mmcblkboot_reprotect ?os1 ?p1 = (?os2, ?p1)"
    using reprotect_writes [of ?p1 ?os1 ?f1] assms(3) by (simp add: NUL_def store_byte_def)
  then have rp: "env_reprotect ?os1 ?p1 = (?os2, ?p1)"
    by (simp add: lifetime_reprotect [OF live1])
  have restored: "files ?os2 = files os"
    using assms(2,4) by (auto simp: fun_eq_iff)
  have c1: "new_calls os ?os1 =
      [Open ?path O_RDWR, Read ?path, Write ?path (CHR ''0''), Close ?path]"
    by (simp add: new_calls_def)
  have c2: "new_calls ?os1 ?os2 = [Open ?path O_WRONLY, Write ?path (CHR ''1''), Close ?path]"
    by (simp add: new_calls_def)
  show ?thesis
    unfolding u rp Let_def prod.case using restored c1 c2 by simp
qed

text \<open>The hypotheses of C2 hold for \<open>/dev/mmcblk0boot1\<close> on the example platform.\<close>

theorem C2_unprotect_reprotect_round_trip_witness:
  "env_protect_probe (os_boot1 ''1'') ''/dev/mmcblk0boot1'' =
     Inr (1, Some (new_protector ctl_boot1), log_call (Access ctl_boot1) (os_boot1 ''1'')) \<and>
   files (os_boot1 ''1'') ctl_boot1 = Some \<lparr>f_writable = True, f_data = Bytes ''1''\<rparr> \<and>
   map_option f_data
     (files (fst (env_unprotect (os_boot1 ''1'') (new_protector ctl_boot1))) ctl_boot1) =
     Some (Bytes ''0'') \<and>
   current_prot (snd (env_unprotect (os_boot1 ''1'') (new_protector ctl_boot1))) = CHR ''1'' \<and>
   files (fst (env_reprotect (fst (env_unprotect (os_boot1 ''1'') (new_protector ctl_boot1)))
                 (snd (env_unprotect (os_boot1 ''1'') (new_protector ctl_boot1))))) =
     files (os_boot1 ''1'')"
  using C2_unprotect_reprotect_round_trip
    [OF probe_boot1 [of "''1''"], of "os_boot1 ''1''" "\<lparr>f_writable = True, f_data = Bytes ''1''\<rparr>" "[]"]
    probe_boot1 [of "''1''"]
  by (simp add: os_boot1_def os_with_def new_protector_def Let_def split: prod.splits)

subsection \<open>C3: the archived value\<close>

text \<open>
  Claim C3. Whenever the caller holds a Protector (after the probe that created it and
  after any number of \<open>env_unprotect\<close> and \<open>env_reprotect\<close> calls, in whatever state the
  operating system was), its archived value is 0, \<open>'0'\<close> or \<open>'1'\<close>. \<open>env_reprotect\<close>
  attempts the restoring write, that is, opens the control file for writing, if and only
  if the archived value is \<open>'0'\<close> or \<open>'1'\<close>; the write of the archived byte follows
  whenever that open succeeds; and with the archived value 0 nothing at all is done.
\<close>

theorem C3_archived_value_and_restore:
  assumes "in_lifetime p"
  shows "current_prot p \<in> {NUL, CHR ''0'', CHR ''1''} \<and>
         (\<forall>os. (Open (sysfs_path p) O_WRONLY \<in> set (new_calls os (fst (env_reprotect os p)))) =
                (current_prot p \<in> {CHR ''0'', CHR ''1''})) \<and>
         (\<forall>os. (Write (sysfs_path p) (current_prot p)
                  \<in> set (new_calls os (fst (env_reprotect os p)))) =
                (current_prot p \<in> {CHR ''0'', CHR ''1''} \<and> may_write os (sysfs_path p))) \<and>
         (\<forall>os. current_prot p = NUL \<longrightarrow> env_reprotect os p = (os, p))"
proof -
  have inv: "current_prot p \<in> {NUL, CHR ''0'', CHR ''1''}"
    using assms by (rule lifetime_archived)
  have rp: "env_reprotect os p = mmcblkboot_reprotect os p" for os
    using assms by (rule lifetime_reprotect)
  have sentinel: "current_prot p \<in> {CHR ''0'', CHR ''1''} \<longleftrightarrow> current_prot p \<noteq> NUL"
    using inv by (auto simp: NUL_def)
  have opens: "(Open (sysfs_path p) O_WRONLY \<in> set (new_calls os (fst (env_reprotect os p)))) =
                (current_prot p \<in> {CHR ''0'', CHR ''1''})" for os
  proof (cases "current_prot p = NUL")
    case True
    then show ?thesis
      unfolding sentinel by (simp add: rp reprotect_nothing_archived new_calls_same)
  next
    case stored: False
    show ?thesis
    proof (cases "may_write os (sysfs_path p)")
      case False
      with stored show ?thesis
        unfolding sentinel by (simp add: rp reprotect_open_fails new_calls_log)
    next
      case True
      then obtain f where "files os (sysfs_path p) = Some f" "f_writable f"
        by (auto simp: may_write_def split: option.splits)
      with stored show ?thesis
        unfolding sentinel by (simp add: rp reprotect_writes new_calls_def)
    qed
  qed
  have writes: "(Write (sysfs_path p) (current_prot p)
                  \<in> set (new_calls os (fst (env_reprotect os p)))) =
                (current_prot p \<in> {CHR ''0'', CHR ''1''} \<and> may_write os (sysfs_path p))" for os
  proof (cases "current_prot p = NUL")
    case True
    then show ?thesis
      unfolding sentinel by (simp add: rp reprotect_nothing_archived new_calls_same)
  next
    case stored: False
    show ?thesis
    proof (cases "may_write os (sysfs_path p)")
      case False
      with stored show ?thesis
        unfolding sentinel by (simp add: rp reprotect_open_fails new_calls_log)
    next
      case True
      then obtain f where "files os (sysfs_path p) = Some f" "f_writable f"
        by (auto simp: may_write_def split: option.splits)
      with stored True show ?thesis
        unfolding sentinel by (simp add: rp reprotect_writes new_calls_def)
    qed
  qed
  have skips: "current_prot p = NUL \<longrightarrow> env_reprotect os p = (os, p)" for os
    by (simp add: rp reprotect_nothing_archived)
  from inv opens writes skips show ?thesis by blast
qed

text \<open>
  The hypothesis of C3 holds for the Protector of \<open>/dev/mmcblk0boot1\<close>, both fresh and
  after an \<open>env_unprotect\<close> that archived \<open>'1'\<close>.
\<close>

theorem C3_archived_value_and_restore_witness:
  "in_lifetime ((new_protector ctl_boot1)\<lparr>current_prot := CHR ''1''\<rparr>) \<and>
   current_prot ((new_protector ctl_boot1)\<lparr>current_prot := CHR ''1''\<rparr>) \<in> {CHR ''0'', CHR ''1''} \<and>
   Open ctl_boot1 O_WRONLY \<in> set (new_calls (os_boot1 ''0'')
     (fst (env_reprotect (os_boot1 ''0'') ((new_protector ctl_boot1)\<lparr>current_prot := CHR ''1''\<rparr>)))) \<and>
   Write ctl_boot1 (CHR ''1'') \<in> set (new_calls (os_boot1 ''0'')
     (fst (env_reprotect (os_boot1 ''0'') ((new_protector ctl_boot1)\<lparr>current_prot := CHR ''1''\<rparr>)))) \<and>
   in_lifetime (new_protector ctl_boot1) \<and> current_prot (new_protector ctl_boot1) = NUL \<and>
   env_reprotect (os_boot1 ''0'') (new_protector ctl_boot1) =
     (os_boot1 ''0'', new_protector ctl_boot1)"
  using C3_archived_value_and_restore [OF lifetime_boot1_archived]
    C3_archived_value_and_restore [OF lifetime_boot1]
    lifetime_boot1_archived lifetime_boot1
  by (simp add: new_protector_def os_boot1_def os_with_def may_write_def)

subsection \<open>C4: a byte that is neither sentinel\<close>

text \<open>
  Claim C4. If the byte \<open>env_unprotect\<close> reads from the control file is neither \<open>'0'\<close>
  nor \<open>'1'\<close>, then \<open>env_unprotect\<close> only opens, reads and closes the file (it writes
  nothing and the files stay as they are) and sets the archived value to 0; and an
  \<open>env_reprotect\<close> on the resulting Protector, in any state of the operating system,
  makes no call and changes nothing.
\<close>

theorem C4_unrecognised_byte_is_left_alone:
  assumes "in_lifetime p"
    and "files os (sysfs_path p) = Some f" and "f_writable f"
    and "f_data f = Bytes (c # rest)" and "c \<noteq> CHR ''0''" and "c \<noteq> CHR ''1''"
  shows "env_unprotect os p =
           (os\<lparr>trace := trace os @
               [Open (sysfs_path p) O_RDWR, Read (sysfs_path p), Close (sysfs_path p)]\<rparr>,
            p\<lparr>current_prot := NUL\<rparr>) \<and>
         (\<forall>os'. env_reprotect os' (p\<lparr>current_prot := NUL\<rparr>) = (os', p\<lparr>current_prot := NUL\<rparr>))"
proof -
  have u: "env_unprotect os p =
           (os\<lparr>trace := trace os @
               [Open (sysfs_path p) O_RDWR, Read (sysfs_path p), Close (sysfs_path p)]\<rparr>,
            p\<lparr>current_prot := NUL\<rparr>)"
    using unprotect_unrecognised [OF assms(2-6)] by (simp add: lifetime_unprotect [OF assms(1)])
  have "in_lifetime (p\<lparr>current_prot := NUL\<rparr>)"
    using in_lifetime.after_unprotect [OF assms(1), of os] u by simp
  then have "env_reprotect os' (p\<lparr>current_prot := NUL\<rparr>) = (os', p\<lparr>current_prot := NUL\<rparr>)" for os'
    by (simp add: lifetime_reprotect reprotect_nothing_archived)
  with u show ?thesis by blast
qed

text \<open>The hypotheses of C4 hold when the control file holds \<open>'x'\<close>.\<close>

theorem C4_unrecognised_byte_is_left_alone_witness:
  "in_lifetime (new_protector ctl_boot1) \<and>
   files (os_boot1 ''x'') (sysfs_path (new_protector ctl_boot1)) =
     Some \<lparr>f_writable = True, f_data = Bytes ''x''\<rparr> \<and>
   env_unprotect (os_boot1 ''x'') (new_protector ctl_boot1) =
     ((os_boot1 ''x'')\<lparr>trace := [Open ctl_boot1 O_RDWR, Read ctl_boot1, Close ctl_boot1]\<rparr>,
      new_protector ctl_boot1) \<and>
   env_reprotect
     ((os_boot1 ''x'')\<lparr>trace := [Open ctl_boot1 O_RDWR, Read ctl_boot1, Close ctl_boot1]\<rparr>)
     (new_protector ctl_boot1) =
     ((os_boot1 ''x'')\<lparr>trace := [Open ctl_boot1 O_RDWR, Read ctl_boot1, Close ctl_boot1]\<rparr>,
      new_protector ctl_boot1)"
  using C4_unrecognised_byte_is_left_alone
    [OF lifetime_boot1, of "os_boot1 ''x''" "\<lparr>f_writable = True, f_data = Bytes ''x''\<rparr>" "CHR ''x''" "[]"]
    lifetime_boot1
  by (simp add: new_protector_def os_boot1_def os_with_def)

subsection \<open>C5: reprotect without unprotect\<close>

text \<open>
  Claim C5. On a Protector just returned by a successful probe, \<open>env_reprotect\<close> is a
  no-operation in every state of the operating system: it neither opens nor writes the
  control file, and files and Protector are unchanged.
\<close>

theorem C5_reprotect_on_fresh_protector:
  assumes "env_protect_probe os0 devname = Inr (r, Some p, os0')"
  shows "env_reprotect os p = (os, p) \<and> new_calls os (fst (env_reprotect os p)) = [] \<and>
         files (fst (env_reprotect os p)) = files os"
  using probed_fresh [OF assms]
  by (simp add: lifetime_reprotect reprotect_nothing_archived new_calls_same)

text \<open>The hypothesis of C5 holds for \<open>/dev/mmcblk0boot1\<close> on the example platform.\<close>

theorem C5_reprotect_on_fresh_protector_witness:
  "env_protect_probe (os_boot1 ''1'') ''/dev/mmcblk0boot1'' =
     Inr (1, Some (new_protector ctl_boot1), log_call (Access ctl_boot1) (os_boot1 ''1'')) \<and>
   env_reprotect (log_call (Access ctl_boot1) (os_boot1 ''1'')) (new_protector ctl_boot1) =
     (log_call (Access ctl_boot1) (os_boot1 ''1''), new_protector ctl_boot1)"
  using C5_reprotect_on_fresh_protector
    [OF probe_boot1 [of "''1''"], of "log_call (Access ctl_boot1) (os_boot1 ''1'')"]
    probe_boot1 [of "''1''"]
  by simp

subsection \<open>C6: failures of open and read\<close>

text \<open>
  Claim C6, as amended. For a Protector in its lifetime: if the control file cannot be
  opened, \<open>env_unprotect\<close> returns after the failed open and leaves the Protector as it
  was, so nothing is captured by that call; if moreover nothing was archived before (as on
  a fresh Protector), every later \<open>env_reprotect\<close> is a no-operation. A read that
  fails (\<open>read\<close> returns -1) or delivers no byte, like a byte that is neither sentinel,
  sets the archived value to 0, whatever was archived before, and writes nothing. If the
  control file cannot be opened in \<open>env_reprotect\<close>, nothing is written and the
  Protector is unchanged.
\<close>

theorem C6_transport_failures:
  assumes "in_lifetime p"
  shows "(\<not> may_write os (sysfs_path p) \<longrightarrow>
            env_unprotect os p = (log_call (Open (sysfs_path p) O_RDWR) os, p)) \<and>
         (\<not> may_write os (sysfs_path p) \<and> current_prot p = NUL \<longrightarrow>
            (\<forall>os'. env_reprotect os' (snd (env_unprotect os p)) = (os', p))) \<and>
         (files os (sysfs_path p) = Some f \<and> f_writable f \<and>
          (case f_data f of
             Read_error \<Rightarrow> True
           | Bytes [] \<Rightarrow> True
           | Bytes (c # rest) \<Rightarrow> c \<noteq> CHR ''0'' \<and> c \<noteq> CHR ''1'') \<longrightarrow>
            env_unprotect os p =
              (os\<lparr>trace := trace os @
                  [Open (sysfs_path p) O_RDWR, Read (sysfs_path p), Close (sysfs_path p)]\<rparr>,
               p\<lparr>current_prot := NUL\<rparr>)) \<and>
         (\<not> may_write os (sysfs_path p) \<longrightarrow>
            env_reprotect os p =
              (if current_prot p = NUL then os else log_call (Open (sysfs_path p) O_WRONLY) os,
               p))"
proof (intro conjI impI)
  assume "\<not> may_write os (sysfs_path p)"
  then show "env_unprotect os p = (log_call (Open (sysfs_path p) O_RDWR) os, p)"
    by (simp add: lifetime_unprotect [OF assms] unprotect_open_fails)
next
  assume a: "\<not> may_write os (sysfs_path p) \<and> current_prot p = NUL"
  then have "snd (env_unprotect os p) = p"
    by (simp add: lifetime_unprotect [OF assms] unprotect_open_fails)
  with a show "\<forall>os'. env_reprotect os' (snd (env_unprotect os p)) = (os', p)"
    by (simp add: lifetime_reprotect [OF assms] reprotect_nothing_archived)
next
  assume a: "files os (sysfs_path p) = Some f \<and> f_writable f \<and>
          (case f_data f of
             Read_error \<Rightarrow> True
           | Bytes [] \<Rightarrow> True
           | Bytes (c # rest) \<Rightarrow> c \<noteq> CHR ''0'' \<and> c \<noteq> CHR ''1'')"
  show "env_unprotect os p =
              (os\<lparr>trace := trace os @
                  [Open (sysfs_path p) O_RDWR, Read (sysfs_path p), Close (sysfs_path p)]\<rparr>,
               p\<lparr>current_prot := NUL\<rparr>)"
  proof (cases "f_data f")
    case Read_error
    with a show ?thesis
      by (simp add: lifetime_unprotect [OF assms] unprotect_read_fails)
  next
    case (Bytes d)
    show ?thesis
    proof (cases d)
      case Nil
      with a Bytes show ?thesis
        by (simp add: lifetime_unprotect [OF assms] unprotect_short_read)
    next
      case (Cons c rest)
      with a Bytes unprotect_unrecognised [of os p f c rest] show ?thesis
        by (simp add: lifetime_unprotect [OF assms])
    qed
  qed
next
  assume "\<not> may_write os (sysfs_path p)"
  then show "env_reprotect os p =
              (if current_prot p = NUL then os else log_call (Open (sysfs_path p) O_WRONLY) os,
               p)"
    by (simp add: lifetime_reprotect [OF assms] reprotect_nothing_archived
        reprotect_open_fails)
qed

text \<open>
  The hypotheses of C6 hold for the Protector of \<open>/dev/mmcblk0boot1\<close>: on a platform
  without control file, on one whose control file is empty, on one whose control file
  fails every read (there with \<open>'1'\<close> archived before, which the failed read discards),
  and after \<open>'1'\<close> was archived.
\<close>

theorem C6_transport_failures_witness:
  "in_lifetime (new_protector ctl_boot1) \<and>
   \<not> may_write (os_bare True) (sysfs_path (new_protector ctl_boot1)) \<and>
   current_prot (new_protector ctl_boot1) = NUL \<and>
   env_unprotect (os_bare True) (new_protector ctl_boot1) =
     (log_call (Open ctl_boot1 O_RDWR) (os_bare True), new_protector ctl_boot1) \<and>
   env_reprotect (os_boot1 ''1'') (snd (env_unprotect (os_bare True) (new_protector ctl_boot1))) =
     (os_boot1 ''1'', new_protector ctl_boot1) \<and>
   files (os_boot1 []) (sysfs_path (new_protector ctl_boot1)) =
     Some \<lparr>f_writable = True, f_data = Bytes []\<rparr> \<and>
   env_unprotect (os_boot1 []) (new_protector ctl_boot1) =
     ((os_boot1 [])\<lparr>trace := [Open ctl_boot1 O_RDWR, Read ctl_boot1, Close ctl_boot1]\<rparr>,
      new_protector ctl_boot1) \<and>
   in_lifetime ((new_protector ctl_boot1)\<lparr>current_prot := CHR ''1''\<rparr>) \<and>
   env_reprotect (os_bare True) ((new_protector ctl_boot1)\<lparr>current_prot := CHR ''1''\<rparr>) =
     (log_call (Open ctl_boot1 O_WRONLY) (os_bare True),
      (new_protector ctl_boot1)\<lparr>current_prot := CHR ''1''\<rparr>) \<and>
   files os_read_error (sysfs_path ((new_protector ctl_boot1)\<lparr>current_prot := CHR ''1''\<rparr>)) =
     Some \<lparr>f_writable = True, f_data = Read_error\<rparr> \<and>
   env_unprotect os_read_error ((new_protector ctl_boot1)\<lparr>current_prot := CHR ''1''\<rparr>) =
     (os_read_error\<lparr>trace := [Open ctl_boot1 O_RDWR, Read ctl_boot1, Close ctl_boot1]\<rparr>,
      new_protector ctl_boot1)"
proof -
  let ?np = "new_protector ctl_boot1"
  let ?np1 = "(new_protector ctl_boot1)\<lparr>current_prot := CHR ''1''\<rparr>"
  let ?empty = "\<lparr>f_writable = True, f_data = Bytes []\<rparr>"
  have sp: "sysfs_path ?np = ctl_boot1" "sysfs_path ?np1 = ctl_boot1"
    by (simp_all add: new_protector_def)
  have fresh: "current_prot ?np = NUL" and archived: "current_prot ?np1 \<noteq> NUL"
    by (simp_all add: new_protector_def NUL_def)
  have nw: "\<not> may_write (os_bare True) (sysfs_path ?np)"
    "\<not> may_write (os_bare True) (sysfs_path ?np1)"
    by (simp_all add: sp os_bare_def may_write_def)
  have cf: "files (os_boot1 []) (sysfs_path ?np) = Some ?empty"
    by (simp add: sp os_boot1_def os_with_def)
  have tr: "trace (os_boot1 []) = []"
    by (simp add: os_boot1_def os_with_def)
  note t1 = C6_transport_failures [OF lifetime_boot1, of "os_bare True" ?empty]
  note t2 = C6_transport_failures [OF lifetime_boot1, of "os_boot1 []" ?empty]
  note t3 = C6_transport_failures [OF lifetime_boot1_archived, of "os_bare True" ?empty]
  from t1 nw(1) have a: "env_unprotect (os_bare True) ?np =
      (log_call (Open ctl_boot1 O_RDWR) (os_bare True), ?np)"
    unfolding sp by blast
  from t1 nw(1) fresh
  have b: "env_reprotect (os_boot1 ''1'') (snd (env_unprotect (os_bare True) ?np)) =
      (os_boot1 ''1'', ?np)"
    by blast
  from t2 cf have c: "env_unprotect (os_boot1 []) ?np =
      ((os_boot1 [])\<lparr>trace := [Open ctl_boot1 O_RDWR, Read ctl_boot1, Close ctl_boot1]\<rparr>, ?np)"
    unfolding sp by (simp add: tr fresh [symmetric])
  from t3 nw(2) archived have d: "env_reprotect (os_bare True) ?np1 =
      (log_call (Open ctl_boot1 O_WRONLY) (os_bare True), ?np1)"
    unfolding sp by simp
  let ?failing = "\<lparr>f_writable = True, f_data = Read_error\<rparr>"
  have rf: "files os_read_error (sysfs_path ?np1) = Some ?failing"
    by (simp add: sp os_read_error_def os_with_def)
  have tr': "trace os_read_error = []"
    by (simp add: os_read_error_def os_with_def)
  have reset: "?np1\<lparr>current_prot := NUL\<rparr> = ?np"
    by (simp add: new_protector_def)
  note t4 = C6_transport_failures [OF lifetime_boot1_archived, of os_read_error ?failing]
  from t4 rf have e: "env_unprotect os_read_error ?np1 =
      (os_read_error\<lparr>trace := [Open ctl_boot1 O_RDWR, Read ctl_boot1, Close ctl_boot1]\<rparr>, ?np)"
    unfolding sp by (simp add: tr' reset)
  from a b c d e nw(1) fresh cf rf lifetime_boot1 lifetime_boot1_archived show ?thesis
    by blast
qed

text \<open>
  Claim C6 as it was stated fails on a Protector that is used a second time: a first
  \<open>env_unprotect\<close> archives \<open>'1'\<close>; a second one cannot open the control file and leaves
  the archived \<open>'1'\<close> in place; the \<open>env_reprotect\<close> that follows is then no
  no-operation, it opens the control file and writes \<open>'1'\<close>.
\<close>

theorem C6_failed_open_keeps_earlier_archive:
  "env_protect_probe (os_boot1 ''1'') ''/dev/mmcblk0boot1'' =
     Inr (1, Some (new_protector ctl_boot1), log_call (Access ctl_boot1) (os_boot1 ''1'')) \<and>
   snd (env_unprotect (os_boot1 ''1'') (new_protector ctl_boot1)) =
     (new_protector ctl_boot1)\<lparr>current_prot := CHR ''1''\<rparr> \<and>
   files (os_bare True) ctl_boot1 = None \<and>
   env_unprotect (os_bare True) ((new_protector ctl_boot1)\<lparr>current_prot := CHR ''1''\<rparr>) =
     (log_call (Open ctl_boot1 O_RDWR) (os_bare True),
      (new_protector ctl_boot1)\<lparr>current_prot := CHR ''1''\<rparr>) \<and>
   new_calls (os_boot1 ''0'')
     (fst (env_reprotect (os_boot1 ''0'')
        (snd (env_unprotect (os_bare True)
           ((new_protector ctl_boot1)\<lparr>current_prot := CHR ''1''\<rparr>))))) =
     [Open ctl_boot1 O_WRONLY, Write ctl_boot1 (CHR ''1''), Close ctl_boot1] \<and>
   map_option f_data
     (files (fst (env_reprotect (os_boot1 ''0'')
        (snd (env_unprotect (os_bare True)
           ((new_protector ctl_boot1)\<lparr>current_prot := CHR ''1''\<rparr>))))) ctl_boot1) =
     Some (Bytes ''1'')"
  by (simp add: probe_boot1) (simp add: run_eval)

subsection \<open>C7: the results of the probe\<close>

text \<open>
  Claim C7, as amended. \<open>env_protect_probe\<close> returns a negative value only when memory
  cannot be allocated, and the value is then \<open>-ENOMEM\<close>. For a device path of the fixed
  pattern whose control path does not exist or is not writable it returns 0 whenever the
  allocation succeeds. The object is allocated before the control path is looked at: when
  the allocation fails, the probe returns \<open>-ENOMEM\<close> for every device path of the fixed
  pattern, whatever the state of its control path.
\<close>

theorem C7_probe_hard_error_only_without_memory:
  "(env_protect_probe os devname = Inr (r, po, os') \<and> r < 0 \<longrightarrow>
      \<not> mem_avail os \<and> r = - ENOMEM \<and> po = None \<and> os' = os) \<and>
   (spec_fixed_pattern devname \<and> mem_avail os \<and>
    \<not> may_write os (c_sys_path_1 @ drop 5 devname @ c_sys_path_2) \<longrightarrow>
      env_protect_probe os devname =
        Inr (0, None, log_call (Access (c_sys_path_1 @ drop 5 devname @ c_sys_path_2)) os)) \<and>
   (spec_fixed_pattern devname \<and> \<not> mem_avail os \<longrightarrow>
      env_protect_probe os devname = Inr (- ENOMEM, None, os))"
proof (intro conjI impI)
  assume a: "env_protect_probe os devname = Inr (r, po, os') \<and> r < 0"
  then have run: "mmcblkboot_create os devname = Inr (r, po, os')" and neg: "r < 0"
    by (simp_all add: env_protect_probe_def)
  have nf: "c_str devname \<noteq> ''/dev/mmcblk''"
    using run create_fault_iff [of os devname] by auto
  have m: "spec_fixed_pattern (take 17 (c_str devname))"
  proof (rule ccontr)
    assume "\<not> spec_fixed_pattern (take 17 (c_str devname))"
    from create_no_match [OF this nf, of os] run neg show False by simp
  qed
  have res: "\<not> mem_avail os \<and> r = - ENOMEM \<and> po = None \<and> os' = os"
  proof (cases "mem_avail os")
    case False
    with run create_match [OF m, of os] show ?thesis by simp
  next
    case True
    with run neg create_match [OF m, of os] show ?thesis
      by (cases "may_write os (control_path devname)") simp_all
  qed
  from res show "\<not> mem_avail os" by simp
  from res show "r = - ENOMEM" by simp
  from res show "po = None" by simp
  from res show "os' = os" by simp
next
  assume a: "spec_fixed_pattern devname \<and> mem_avail os \<and>
    \<not> may_write os (c_sys_path_1 @ drop 5 devname @ c_sys_path_2)"
  then have p: "spec_fixed_pattern devname" by simp
  have cp: "control_path devname = c_sys_path_1 @ drop 5 devname @ c_sys_path_2"
    using p by (simp add: control_path_def spec_fixed_pattern_c_str spec_fixed_pattern_def
        SYSFS_PATH_MAX_def c_sys_path_1_def c_sys_path_2_def)
  show "env_protect_probe os devname =
        Inr (0, None, log_call (Access (c_sys_path_1 @ drop 5 devname @ c_sys_path_2)) os)"
    using a p create_match [of devname os]
    by (simp add: env_protect_probe_def spec_fixed_pattern_c_str cp)
next
  assume a: "spec_fixed_pattern devname \<and> \<not> mem_avail os"
  then have p: "spec_fixed_pattern devname" by simp
  show "env_protect_probe os devname = Inr (- ENOMEM, None, os)"
    using a p create_match [of devname os]
    by (simp add: env_protect_probe_def spec_fixed_pattern_c_str)
qed

text \<open>
  The hypotheses of C7 hold for \<open>/dev/mmcblk0boot1\<close> on a platform without control
  files, once without and once with memory to allocate.
\<close>

theorem C7_probe_hard_error_only_without_memory_witness:
  "env_protect_probe (os_bare False) ''/dev/mmcblk0boot1'' = Inr (- ENOMEM, None, os_bare False) \<and>
   - ENOMEM < 0 \<and> \<not> mem_avail (os_bare False) \<and>
   spec_fixed_pattern ''/dev/mmcblk0boot1'' \<and> mem_avail (os_bare True) \<and>
   \<not> may_write (os_bare True) (c_sys_path_1 @ drop 5 ''/dev/mmcblk0boot1'' @ c_sys_path_2) \<and>
   env_protect_probe (os_bare True) ''/dev/mmcblk0boot1'' =
     Inr (0, None,
          log_call (Access (c_sys_path_1 @ drop 5 ''/dev/mmcblk0boot1'' @ c_sys_path_2))
            (os_bare True))"
  using
    C7_probe_hard_error_only_without_memory
      [of "os_bare False" "''/dev/mmcblk0boot1''" "- ENOMEM" None "os_bare False"]
    C7_probe_hard_error_only_without_memory
      [of "os_bare True" "''/dev/mmcblk0boot1''" 0 None "os_bare True"]
  by (simp add: spec_fixed_pattern_def ascii_digits_def os_bare_def may_write_def ENOMEM_def)

text \<open>
  Claim C7 as it was stated fails: \<open>/dev/mmcblk0boot1\<close> is of the fixed pattern and its
  control path does not exist, yet the probe returns -12 when memory cannot be allocated.
\<close>

theorem C7_error_with_missing_control_file:
  "spec_fixed_pattern ''/dev/mmcblk0boot1'' \<and>
   files (os_bare False) ''/sys/class/block/mmcblk0boot1/force_ro'' = None \<and>
   env_protect_probe (os_bare False) ''/dev/mmcblk0boot1'' = Inr (- 12, None, os_bare False)"
  by (simp add: probe_eval)

subsection \<open>C8: the stored control path\<close>

text \<open>
  Claim C8, as amended. For every device path the probe accepts, the control path stored
  in the Protector is the first 119 characters of \<open>/sys/class/block/\<close>, followed by the
  bare device name, followed by \<open>/force_ro\<close>; it is the whole concatenation when the bare
  device name has at most 93 characters, as for \<open>/dev/mmcblk0boot1\<close>, whose stored path
  is \<open>/sys/class/block/mmcblk0boot1/force_ro\<close>.
\<close>

theorem C8_control_path_is_bounded_concatenation:
  assumes "env_protect_probe os devname = Inr (r, Some p, os')"
  shows "sysfs_path p =
           take 119 (''/sys/class/block/'' @ drop 5 (c_str devname) @ ''/force_ro'') \<and>
         (length (drop 5 (c_str devname)) \<le> 93 \<longrightarrow>
            sysfs_path p = ''/sys/class/block/'' @ drop 5 (c_str devname) @ ''/force_ro'')"
  using create_stores [of os devname r p os'] assms
  by (simp add: env_protect_probe_def control_path_def new_protector_def SYSFS_PATH_MAX_def
      c_sys_path_1_def c_sys_path_2_def)

text \<open>The hypotheses of C8 hold for \<open>/dev/mmcblk0boot1\<close>, the example of the claim.\<close>

theorem C8_control_path_is_bounded_concatenation_witness:
  "env_protect_probe (os_boot1 ''1'') ''/dev/mmcblk0boot1'' =
     Inr (1, Some (new_protector ''/sys/class/block/mmcblk0boot1/force_ro''),
          log_call (Access ''/sys/class/block/mmcblk0boot1/force_ro'') (os_boot1 ''1'')) \<and>
   length (drop 5 (c_str ''/dev/mmcblk0boot1'')) \<le> 93 \<and>
   sysfs_path (new_protector ''/sys/class/block/mmcblk0boot1/force_ro'') =
     ''/sys/class/block/'' @ drop 5 (c_str ''/dev/mmcblk0boot1'') @ ''/force_ro'' \<and>
   sysfs_path (new_protector ''/sys/class/block/mmcblk0boot1/force_ro'') =
     ''/sys/class/block/mmcblk0boot1/force_ro''"
proof -
  have run: "env_protect_probe (os_boot1 ''1'') ''/dev/mmcblk0boot1'' =
     Inr (1, Some (new_protector ''/sys/class/block/mmcblk0boot1/force_ro''),
          log_call (Access ''/sys/class/block/mmcblk0boot1/force_ro'') (os_boot1 ''1''))"
    by (simp add: probe_eval)
  from C8_control_path_is_bounded_concatenation [OF run] run show ?thesis
    by (simp add: c_str_def NUL_def new_protector_def)
qed

text \<open>
  Claim C8 as it was stated fails for a device path that the matcher accepts and whose
  bare name has 112 characters: \<open>snprintf\<close> cuts the concatenation of 138 characters
  down to 119, and the probe hands out a Protector with the truncated path when a control
  file of that name is writable.
\<close>

theorem C8_long_name_is_truncated:
  "env_protect_probe (os_with long_ctl \<lparr>f_writable = True, f_data = Bytes ''1''\<rparr>) long_devname =
     Inr (1, Some (new_protector long_ctl),
          log_call (Access long_ctl) (os_with long_ctl \<lparr>f_writable = True, f_data = Bytes ''1''\<rparr>)) \<and>
   sysfs_path (new_protector long_ctl) \<noteq>
     ''/sys/class/block/'' @ drop 5 long_devname @ ''/force_ro'' \<and>
   length (sysfs_path (new_protector long_ctl)) = 119 \<and>
   length (''/sys/class/block/'' @ drop 5 long_devname @ ''/force_ro'') = 138"
proof -
  have run: "env_protect_probe (os_with long_ctl \<lparr>f_writable = True, f_data = Bytes ''1''\<rparr>) long_devname =
     Inr (1, Some (new_protector long_ctl),
          log_call (Access long_ctl) (os_with long_ctl \<lparr>f_writable = True, f_data = Bytes ''1''\<rparr>))"
    by (simp add: env_protect_probe_def create_match [OF long_devname_pattern]
        long_devname_control_path os_with_def may_write_def)
  have l1: "length (sysfs_path (new_protector long_ctl)) = 119"
    by (simp add: new_protector_def long_ctl_def)
  have l2: "length (''/sys/class/block/'' @ drop 5 long_devname @ ''/force_ro'') = 138"
    by (simp add: long_devname_def)
  from l1 l2 have "sysfs_path (new_protector long_ctl) \<noteq>
     ''/sys/class/block/'' @ drop 5 long_devname @ ''/force_ro''"
    by (metis numeral_eq_iff semiring_norm(88,89,90) num.inject)
  with run l1 l2 show ?thesis by blast
qed

subsection \<open>C9: what reprotect and unprotect change\<close>

text \<open>
  Claim C9. \<open>mmcblkboot_reprotect\<close> returns the Protector it was given, whatever
  happens (nothing archived, open fails, byte written): path, archived byte and function
  pointers are unchanged, and so they are after \<open>env_reprotect\<close> on a Protector in its
  lifetime. \<open>env_unprotect\<close> changes at most the archived byte: path and function
  pointers stay.
\<close>

theorem C9_reprotect_leaves_protector_unchanged:
  assumes "in_lifetime p"
  shows "snd (mmcblkboot_reprotect os p) = p \<and> snd (env_reprotect os p) = p \<and>
         sysfs_path (snd (env_unprotect os p)) = sysfs_path p \<and>
         unprotect (snd (env_unprotect os p)) = unprotect p \<and>
         reprotect (snd (env_unprotect os p)) = reprotect p"
proof -
  have "snd (env_reprotect os p) = p"
    by (simp add: lifetime_reprotect [OF assms] reprotect_keeps_object)
  moreover have "sysfs_path (snd (env_unprotect os p)) = sysfs_path p \<and>
         unprotect (snd (env_unprotect os p)) = unprotect p \<and>
         reprotect (snd (env_unprotect os p)) = reprotect p"
    using unprotect_cases [of os p] by (auto simp: lifetime_unprotect [OF assms])
  ultimately show ?thesis by (simp add: reprotect_keeps_object)
qed

text \<open>
  The hypothesis of C9 holds for the Protector that archived \<open>'1'\<close>; on it,
  \<open>env_unprotect\<close> overwrites the archived byte with \<open>'0'\<close>.
\<close>

theorem C9_reprotect_leaves_protector_unchanged_witness:
  "in_lifetime ((new_protector ctl_boot1)\<lparr>current_prot := CHR ''1''\<rparr>) \<and>
   snd (env_reprotect (os_boot1 ''0'') ((new_protector ctl_boot1)\<lparr>current_prot := CHR ''1''\<rparr>)) =
     (new_protector ctl_boot1)\<lparr>current_prot := CHR ''1''\<rparr> \<and>
   snd (env_reprotect (os_bare True) ((new_protector ctl_boot1)\<lparr>current_prot := CHR ''1''\<rparr>)) =
     (new_protector ctl_boot1)\<lparr>current_prot := CHR ''1''\<rparr> \<and>
   snd (env_unprotect (os_boot1 ''0'') ((new_protector ctl_boot1)\<lparr>current_prot := CHR ''1''\<rparr>)) =
     (new_protector ctl_boot1)\<lparr>current_prot := CHR ''0''\<rparr>"
proof -
  have "snd (env_unprotect (os_boot1 ''0'') ((new_protector ctl_boot1)\<lparr>current_prot := CHR ''1''\<rparr>)) =
     (new_protector ctl_boot1)\<lparr>current_prot := CHR ''0''\<rparr>"
    by (simp add: run_eval)
  with C9_reprotect_leaves_protector_unchanged [OF lifetime_boot1_archived, of "os_boot1 ''0''"]
    C9_reprotect_leaves_protector_unchanged [OF lifetime_boot1_archived, of "os_bare True"]
    lifetime_boot1_archived
  show ?thesis by simp
qed

subsection \<open>C10: reads within the device path\<close>

text \<open>
  Claim C10. The matching routine is to read \<open>devname\<close> only up to and including its
  terminating NUL, also for a bare name that is shorter than 12 characters and begins with
  \<open>mmcblk\<close>. The source does not: for \<open>/dev/mmcblk\<close> the bare name is \<open>mmcblk\<close>, its
  terminator is at offset 6, and \<open>strncmp(devfile + sizeof(c_dev_name_1), ...)\<close> reads
  offset 7 before the character at offset 6 has been looked at. By \<open>create_fault_iff\<close>
  this is the only device path on which the routine leaves the string.
\<close>

theorem C10_probe_reads_behind_terminator:
  "env_protect_probe os ''/dev/mmcblk'' = Inl Out_of_bounds"
  by (simp add: env_protect_probe_def create_unfold c_str_def NUL_def)

end
